theory Spec2Isabelle
  imports Main "HOL-Library.AList"
begin

section \<open>Online shopping cart: the Product, CartItem and ShoppingCart classes\<close>

text \<open>
  The model follows \<^verbatim>\<open>src/main.py\<close>. Python integers are \<^typ>\<open>int\<close>. A price is a
  value of a type parameter \<open>'p\<close>: the constructor stores it and no operation below reads
  it, so whatever is said holds for every kind of price, Python floats included. The two
  methods that compute with prices, \<^verbatim>\<open>CartItem.subtotal\<close> and
  \<^verbatim>\<open>ShoppingCart.get_cart_total\<close>, do so in float arithmetic; they are not part of
  this model.

  A Product is a mutable object that the catalog and a cart line share, so Products live
  in an object store: \<open>heap\<close> maps an address to the Product stored there, \<open>next_ref\<close>
  is the first address not handed out yet, and the catalog and the cart lines hold
  addresses. A CartItem is only ever held by the cart dictionary, so it is stored by
  value. A Python dict keeps its keys in insertion order: it is an association list, read
  with \<^const>\<open>map_of\<close>, written with \<^const>\<open>AList.update\<close> (an existing key keeps its
  place, a new key goes to the end) and \<^const>\<open>AList.delete\<close>.
\<close>

subsection \<open>Product\<close>

record 'p Product =
  product_id :: string
  name :: string
  price :: 'p
  quantity_available :: int

text \<open>The constructor \<^verbatim>\<open>Product.__init__\<close> stores its four arguments unchecked.\<close>

definition Product_init :: "string \<Rightarrow> string \<Rightarrow> 'p \<Rightarrow> int \<Rightarrow> 'p Product" where
  "Product_init pid nm pr qty =
     \<lparr>product_id = pid, name = nm, price = pr, quantity_available = qty\<rparr>"

text \<open>The setter of the property \<^verbatim>\<open>quantity_available\<close>.\<close>

definition set_quantity_available :: "'p Product \<Rightarrow> int \<Rightarrow> 'p Product" where
  "set_quantity_available p v = (if v \<ge> 0 then p\<lparr>quantity_available := v\<rparr> else p)"

text \<open>\<^verbatim>\<open>decrease_quantity\<close> returns its boolean together with the object after the call.\<close>

definition decrease_quantity :: "'p Product \<Rightarrow> int \<Rightarrow> bool \<times> 'p Product" where
  "decrease_quantity p amount =
     (if 0 < amount \<and> amount \<le> quantity_available p
      then (True, p\<lparr>quantity_available := quantity_available p - amount\<rparr>)
      else (False, p))"

definition increase_quantity :: "'p Product \<Rightarrow> int \<Rightarrow> 'p Product" where
  "increase_quantity p amount = p\<lparr>quantity_available := quantity_available p + amount\<rparr>"

text \<open>The three mutators as one datatype, to run sequences of them on one Product.\<close>

datatype product_op = Decrease int | Increase int | SetQuantity int

fun product_step :: "'p Product \<Rightarrow> product_op \<Rightarrow> 'p Product" where
  "product_step p (Decrease a) = snd (decrease_quantity p a)"
| "product_step p (Increase a) = increase_quantity p a"
| "product_step p (SetQuantity v) = set_quantity_available p v"

subsection \<open>CartItem\<close>

record CartItem =
  product :: nat
  quantity :: int

subsection \<open>ShoppingCart\<close>

record 'p ShoppingCart =
  heap :: "nat \<Rightarrow> 'p Product"
  next_ref :: nat
  catalog :: "(string \<times> nat) list"
  cart :: "(string \<times> CartItem) list"
  next_id :: int

text \<open>
  Only \<^verbatim>\<open>self.catalog[pid]\<close> in \<^verbatim>\<open>remove_from_cart\<close> can raise: a \<^verbatim>\<open>KeyError\<close>
  when the key is in the cart and not in the catalog.
\<close>

datatype error = KeyError

text \<open>
  \<^verbatim>\<open>ShoppingCart.__init__\<close>: two empty dictionaries and the counter at 1. No Product
  exists yet; the cells of the store hold a blank record until an object is allocated
  (its price is the zero of the price type; no operation reads a cell before it is
  allocated).
\<close>

definition blank :: "'p::zero Product" where
  "blank = \<lparr>product_id = [], name = [], price = 0, quantity_available = 0\<rparr>"

definition ShoppingCart_init :: "'p::zero ShoppingCart" where
  "ShoppingCart_init =
     \<lparr>heap = (\<lambda>_. blank), next_ref = 0, catalog = [], cart = [], next_id = 1\<rparr>"

subsubsection \<open>The format \<^verbatim>\<open>f"PID{n:03d}"\<close>\<close>

definition digit_char :: "nat \<Rightarrow> char" where
  "digit_char d = char_of (48 + d)"

function str_nat :: "nat \<Rightarrow> string" where
  "str_nat n = (if n < 10 then [digit_char n] else str_nat (n div 10) @ [digit_char (n mod 10)])"
  by pat_completeness auto
termination
  by (relation "measure id") auto

declare str_nat.simps [simp del]

definition zfill :: "nat \<Rightarrow> string \<Rightarrow> string" where
  "zfill w ds = replicate (w - length ds) (CHR ''0'') @ ds"

text \<open>
  \<^verbatim>\<open>{n:03d}\<close>: decimal digits, padded with zeros to a width of three, the sign of a
  negative number counting towards the width and standing before the zeros.
\<close>

definition format_03d :: "int \<Rightarrow> string" where
  "format_03d n =
     (if n < 0 then CHR ''-'' # zfill 2 (str_nat (nat (- n))) else zfill 3 (str_nat (nat n)))"

text \<open>The whole f-string \<^verbatim>\<open>f"PID{n:03d}"\<close>.\<close>

definition pid_string :: "int \<Rightarrow> string" where
  "pid_string n = ''PID'' @ format_03d n"

definition generate_product_id :: "'p ShoppingCart \<Rightarrow> string \<times> 'p ShoppingCart" where
  "generate_product_id s = (pid_string (next_id s), s\<lparr>next_id := next_id s + 1\<rparr>)"

subsubsection \<open>The operations\<close>

text \<open>
  \<^verbatim>\<open>add_product\<close>: the new Product object gets the next free address of the store.
\<close>

definition add_product :: "'p ShoppingCart \<Rightarrow> string \<Rightarrow> 'p \<Rightarrow> int \<Rightarrow> string \<times> 'p ShoppingCart" where
  "add_product s nm pr qty =
     (let (pid, s1) = generate_product_id s;
          r = next_ref s1
      in (pid, s1\<lparr>heap := (heap s1)(r := Product_init pid nm pr qty),
                   next_ref := Suc r,
                   catalog := AList.update pid r (catalog s1)\<rparr>))"

definition add_to_cart :: "'p ShoppingCart \<Rightarrow> string \<Rightarrow> int \<Rightarrow> bool \<times> 'p ShoppingCart" where
  "add_to_cart s pid qty =
     (case map_of (catalog s) pid of
        None \<Rightarrow> (False, s)
      | Some r \<Rightarrow>
          (let (ok, p) = decrease_quantity (heap s r) qty;
               s1 = s\<lparr>heap := (heap s)(r := p)\<rparr>
           in if ok then
                (case map_of (cart s1) pid of
                   Some item \<Rightarrow>
                     (True, s1\<lparr>cart := AList.update pid (item\<lparr>quantity := quantity item + qty\<rparr>) (cart s1)\<rparr>)
                 | None \<Rightarrow>
                     (True, s1\<lparr>cart := AList.update pid \<lparr>product = r, quantity = qty\<rparr> (cart s1)\<rparr>))
              else (False, s1)))"

definition update_cart_quantity :: "'p ShoppingCart \<Rightarrow> string \<Rightarrow> int \<Rightarrow> bool \<times> 'p ShoppingCart" where
  "update_cart_quantity s pid new_qty =
     (case map_of (cart s) pid of
        None \<Rightarrow> (False, s)
      | Some item \<Rightarrow>
          (let current_qty = quantity item;
               available_qty = quantity_available (heap s (product item));
               diff = new_qty - current_qty
           in if diff = 0 then (True, s)
              else if diff > 0 then
                (if diff \<le> available_qty then
                   (let p = snd (decrease_quantity (heap s (product item)) diff)
                    in (True, s\<lparr>heap := (heap s)(product item := p),
                                 cart := AList.update pid (item\<lparr>quantity := new_qty\<rparr>) (cart s)\<rparr>))
                 else (False, s))
              else
                (let p = increase_quantity (heap s (product item)) (- diff)
                 in (True, s\<lparr>heap := (heap s)(product item := p),
                              cart := AList.update pid (item\<lparr>quantity := new_qty\<rparr>) (cart s)\<rparr>))))"

definition remove_from_cart :: "'p ShoppingCart \<Rightarrow> string \<Rightarrow> error + bool \<times> 'p ShoppingCart" where
  "remove_from_cart s pid =
     (case map_of (cart s) pid of
        None \<Rightarrow> Inr (False, s)
      | Some item \<Rightarrow>
          (case map_of (catalog s) pid of
             None \<Rightarrow> Inl KeyError
           | Some r \<Rightarrow>
               Inr (True, s\<lparr>heap := (heap s)(r := increase_quantity (heap s r) (quantity item)),
                            cart := AList.delete pid (cart s)\<rparr>)))"

definition clear_cart :: "'p ShoppingCart \<Rightarrow> 'p ShoppingCart" where
  "clear_cart s = s\<lparr>cart := []\<rparr>"

subsubsection \<open>Sequences of calls\<close>

datatype 'p op =
    AddProduct string 'p int
  | AddToCart string int
  | UpdateCartQuantity string int
  | RemoveFromCart string
  | ClearCart

fun exec :: "'p ShoppingCart \<Rightarrow> 'p op \<Rightarrow> error + 'p ShoppingCart" where
  "exec s (AddProduct nm pr qty) = Inr (snd (add_product s nm pr qty))"
| "exec s (AddToCart pid qty) = Inr (snd (add_to_cart s pid qty))"
| "exec s (UpdateCartQuantity pid new_qty) = Inr (snd (update_cart_quantity s pid new_qty))"
| "exec s (RemoveFromCart pid) =
     (case remove_from_cart s pid of Inl e \<Rightarrow> Inl e | Inr (ok, s') \<Rightarrow> Inr s')"
| "exec s ClearCart = Inr (clear_cart s)"

fun run :: "'p ShoppingCart \<Rightarrow> 'p op list \<Rightarrow> error + 'p ShoppingCart" where
  "run s [] = Inr s"
| "run s (x # xs) = (case exec s x of Inl e \<Rightarrow> Inl e | Inr s' \<Rightarrow> run s' xs)"

subsection \<open>Vocabulary of the properties\<close>

text \<open>
  The quantity reserved for the Product at address \<open>r\<close>: the quantities of the cart
  lines that refer to it, added up.
\<close>

definition reserved :: "'p ShoppingCart \<Rightarrow> nat \<Rightarrow> int" where
  "reserved s r = (\<Sum>(pid, item) \<leftarrow> cart s. if product item = r then quantity item else 0)"

text \<open>The identifiers handed out while the counter went from 1 to \<open>n\<close>.\<close>

definition issued :: "int \<Rightarrow> string list" where
  "issued n = map pid_string [1..n - 1]"

text \<open>
  What every state built by the operations satisfies: the keys of each dictionary are
  distinct, every catalog entry is an allocated object under an identifier that was handed
  out, every cart line refers to the catalog's Product of its key, and the counter is
  positive.
\<close>

definition consistent :: "'p ShoppingCart \<Rightarrow> bool" where
  "consistent s \<longleftrightarrow>
     distinct (map fst (catalog s)) \<and> distinct (map fst (cart s)) \<and>
     list_all (\<lambda>(pid, r). r < next_ref s \<and> pid \<in> set (issued (next_id s))) (catalog s) \<and>
     list_all (\<lambda>(pid, item). map_of (catalog s) pid = Some (product item)) (cart s) \<and>
     1 \<le> next_id s"

text \<open>The calls that leave reservations in place: all but \<^verbatim>\<open>clear_cart\<close>.\<close>

fun keeps_reservations :: "'p op \<Rightarrow> bool" where
  "keeps_reservations ClearCart = False"
| "keeps_reservations _ = True"

fun is_add_product :: "'p op \<Rightarrow> bool" where
  "is_add_product (AddProduct _ _ _) = True"
| "is_add_product _ = False"

text \<open>
  Reading a decimal numeral back, the inverse of the format on the counter's values; it
  serves to show that two counter values never give the same identifier.
\<close>

definition digit_val :: "char \<Rightarrow> nat" where
  "digit_val c = of_char c - 48"

definition read_nat :: "string \<Rightarrow> nat" where
  "read_nat ds = foldl (\<lambda>a c. 10 * a + digit_val c) 0 ds"

text \<open>
  A state to evaluate the operations on, with the integer price of the specification's
  scenario: the catalog holds a Pen at 10, five were stocked and three of them are in the
  cart.
\<close>

definition pen_cart :: "int ShoppingCart" where
  "pen_cart =
     \<lparr>heap = (\<lambda>_. blank)(0 := \<lparr>product_id = ''PID001'', name = ''Pen'', price = 10,
                                   quantity_available = 2\<rparr>),
      next_ref = 1, catalog = [(''PID001'', 0)],
      cart = [(''PID001'', \<lparr>product = 0, quantity = 3\<rparr>)], next_id = 2\<rparr>"

section \<open>Evaluating the operations\<close>

lemma pid_string_1: "pid_string 1 = ''PID001''"
  by code_simp

lemma pid_string_2: "pid_string 2 = ''PID002''"
  by code_simp

lemma pen_cart_run:
  "run ShoppingCart_init [AddProduct ''Pen'' 10 5, AddToCart ''PID001'' 3] = Inr pen_cart"
  by (simp add: add_product_def generate_product_id_def ShoppingCart_init_def pid_string_1 Let_def
      add_to_cart_def decrease_quantity_def Product_init_def pen_cart_def)

section \<open>The operations of the cart, one call at a time\<close>

text \<open>
  C2, as the code has it: \<^verbatim>\<open>add_to_cart\<close> returns False exactly when the identifier is
  not in the catalog or the quantity is not within \<open>0 < qty \<le> stock\<close>, and then the state
  is the one before the call; otherwise it returns True, the Product's stock is \<open>qty\<close>
  less, and the cart line of the identifier is the old one with \<open>qty\<close> more, or a new line
  of that Product with quantity \<open>qty\<close>; nothing else changes.
\<close>

theorem add_to_cart_spec:
  "(fst (add_to_cart s pid qty) = False \<longleftrightarrow>
      (map_of (catalog s) pid = None \<or>
       (\<exists>r. map_of (catalog s) pid = Some r \<and> \<not> (0 < qty \<and> qty \<le> quantity_available (heap s r)))))
   \<and> (\<not> fst (add_to_cart s pid qty) \<longrightarrow> snd (add_to_cart s pid qty) = s)
   \<and> (\<forall>r. map_of (catalog s) pid = Some r \<and> 0 < qty \<and> qty \<le> quantity_available (heap s r) \<longrightarrow>
        add_to_cart s pid qty =
          (True, s\<lparr>heap := (heap s)(r := (heap s r)\<lparr>quantity_available := quantity_available (heap s r) - qty\<rparr>),
                   cart := AList.update pid
                     (case map_of (cart s) pid of
                        Some item \<Rightarrow> item\<lparr>quantity := quantity item + qty\<rparr>
                      | None \<Rightarrow> \<lparr>product = r, quantity = qty\<rparr>) (cart s)\<rparr>))"
  by (auto simp: add_to_cart_def decrease_quantity_def split: option.splits)

theorem add_to_cart_spec_witness:
  "add_to_cart pen_cart ''PID001'' 2 =
     (True, pen_cart\<lparr>heap := (heap pen_cart)(0 := \<lparr>product_id = ''PID001'', name = ''Pen'', price = 10,
                                                    quantity_available = 0\<rparr>),
                     cart := [(''PID001'', \<lparr>product = 0, quantity = 5\<rparr>)]\<rparr>)
   \<and> add_to_cart pen_cart ''PID001'' 3 = (False, pen_cart)
   \<and> add_to_cart pen_cart ''PID002'' 1 = (False, pen_cart)"
  using add_to_cart_spec [of pen_cart "''PID001''" 2] add_to_cart_spec [of pen_cart "''PID001''" 3]
    add_to_cart_spec [of pen_cart "''PID002''" 1]
  by (simp add: pen_cart_def prod_eq_iff)

text \<open>
  C2 as it is written fails where the quantity is not positive: the Pen is in the catalog
  and its stock of 2 is not less than the 0 asked for, yet the call returns False.
\<close>

theorem add_to_cart_zero_counterexample:
  "map_of (catalog pen_cart) ''PID001'' = Some 0
   \<and> \<not> (quantity_available (heap pen_cart 0) < 0)
   \<and> add_to_cart pen_cart ''PID001'' 0 = (False, pen_cart)"
  by (simp add: pen_cart_def add_to_cart_def decrease_quantity_def)

text \<open>
  C3: \<^verbatim>\<open>update_cart_quantity\<close> returns False and changes nothing when the identifier is
  not in the cart. Otherwise, with \<open>diff = new_qty - quantity item\<close>: for \<open>diff = 0\<close> it
  returns True and changes nothing; for \<open>diff > 0\<close> it returns True exactly when \<open>diff\<close> is
  at most the stock of the line's Product, then takes \<open>diff\<close> from that stock and sets the
  line's quantity to \<open>new_qty\<close>, and changes nothing when the stock is too small; for
  \<open>diff < 0\<close> it returns True, adds \<open>- diff\<close> to the stock and sets the line's quantity to
  \<open>new_qty\<close>.
\<close>

theorem update_cart_quantity_spec:
  "(map_of (cart s) pid = None \<longrightarrow> update_cart_quantity s pid new_qty = (False, s)) \<and>
   (\<forall>item. map_of (cart s) pid = Some item \<longrightarrow>
      (new_qty - quantity item = 0 \<longrightarrow> update_cart_quantity s pid new_qty = (True, s)) \<and>
      (0 < new_qty - quantity item \<longrightarrow>
         (fst (update_cart_quantity s pid new_qty) \<longleftrightarrow>
            new_qty - quantity item \<le> quantity_available (heap s (product item))) \<and>
         (new_qty - quantity item \<le> quantity_available (heap s (product item)) \<longrightarrow>
            snd (update_cart_quantity s pid new_qty) =
              s\<lparr>heap := (heap s)(product item := (heap s (product item))
                     \<lparr>quantity_available := quantity_available (heap s (product item)) - (new_qty - quantity item)\<rparr>),
                cart := AList.update pid (item\<lparr>quantity := new_qty\<rparr>) (cart s)\<rparr>) \<and>
         (quantity_available (heap s (product item)) < new_qty - quantity item \<longrightarrow>
            snd (update_cart_quantity s pid new_qty) = s)) \<and>
      (new_qty - quantity item < 0 \<longrightarrow>
         update_cart_quantity s pid new_qty =
           (True, s\<lparr>heap := (heap s)(product item := (heap s (product item))
                     \<lparr>quantity_available := quantity_available (heap s (product item)) + - (new_qty - quantity item)\<rparr>),
                    cart := AList.update pid (item\<lparr>quantity := new_qty\<rparr>) (cart s)\<rparr>)))"
  by (auto simp: update_cart_quantity_def decrease_quantity_def increase_quantity_def Let_def)

theorem update_cart_quantity_spec_witness:
  "update_cart_quantity pen_cart ''PID002'' 1 = (False, pen_cart)
   \<and> update_cart_quantity pen_cart ''PID001'' 3 = (True, pen_cart)
   \<and> update_cart_quantity pen_cart ''PID001'' 5 =
       (True, pen_cart\<lparr>heap := (heap pen_cart)(0 := \<lparr>product_id = ''PID001'', name = ''Pen'', price = 10,
                                                      quantity_available = 0\<rparr>),
                       cart := [(''PID001'', \<lparr>product = 0, quantity = 5\<rparr>)]\<rparr>)
   \<and> update_cart_quantity pen_cart ''PID001'' 6 = (False, pen_cart)
   \<and> update_cart_quantity pen_cart ''PID001'' 1 =
       (True, pen_cart\<lparr>heap := (heap pen_cart)(0 := \<lparr>product_id = ''PID001'', name = ''Pen'', price = 10,
                                                      quantity_available = 4\<rparr>),
                       cart := [(''PID001'', \<lparr>product = 0, quantity = 1\<rparr>)]\<rparr>)"
  using update_cart_quantity_spec [of pen_cart "''PID002''" 1]
    update_cart_quantity_spec [of pen_cart "''PID001''" 3]
    update_cart_quantity_spec [of pen_cart "''PID001''" 5]
    update_cart_quantity_spec [of pen_cart "''PID001''" 6]
    update_cart_quantity_spec [of pen_cart "''PID001''" 1]
  by (simp add: pen_cart_def prod_eq_iff)

text \<open>
  C4: \<^verbatim>\<open>remove_from_cart\<close> returns False and changes nothing when the identifier is not in
  the cart. Whenever it returns True, the quantity of the line has been added to the stock
  of the catalog's Product of that identifier, the line is gone and the other lines are as
  before, and a second call right away returns False. Where the line refers to the
  catalog's Product of its key, as it does in every state the operations build, the call
  returns True and the Product credited is the one the line refers to.
\<close>

theorem remove_from_cart_spec:
  "(map_of (cart s) pid = None \<longrightarrow> remove_from_cart s pid = Inr (False, s)) \<and>
   (\<forall>s'. remove_from_cart s pid = Inr (True, s') \<longrightarrow>
      (\<exists>item r. map_of (cart s) pid = Some item \<and> map_of (catalog s) pid = Some r \<and>
         s' = s\<lparr>heap := (heap s)(r := (heap s r)\<lparr>quantity_available := quantity_available (heap s r) + quantity item\<rparr>),
               cart := AList.delete pid (cart s)\<rparr>) \<and>
      map_of (cart s') pid = None \<and>
      (\<forall>k. k \<noteq> pid \<longrightarrow> map_of (cart s') k = map_of (cart s) k) \<and>
      remove_from_cart s' pid = Inr (False, s')) \<and>
   (\<forall>item. map_of (cart s) pid = Some item \<and> map_of (catalog s) pid = Some (product item) \<longrightarrow>
      remove_from_cart s pid =
        Inr (True, s\<lparr>heap := (heap s)(product item := (heap s (product item))
                        \<lparr>quantity_available := quantity_available (heap s (product item)) + quantity item\<rparr>),
                     cart := AList.delete pid (cart s)\<rparr>))"
  by (auto simp: remove_from_cart_def increase_quantity_def AList.delete_conv' split: option.splits)

theorem remove_from_cart_spec_witness:
  "remove_from_cart pen_cart ''PID002'' = Inr (False, pen_cart)
   \<and> remove_from_cart pen_cart ''PID001'' =
       Inr (True, pen_cart\<lparr>heap := (heap pen_cart)(0 := \<lparr>product_id = ''PID001'', name = ''Pen'', price = 10,
                                                          quantity_available = 5\<rparr>),
                           cart := []\<rparr>)
   \<and> remove_from_cart
        (pen_cart\<lparr>heap := (heap pen_cart)(0 := \<lparr>product_id = ''PID001'', name = ''Pen'', price = 10,
                                                 quantity_available = 5\<rparr>),
                  cart := []\<rparr>) ''PID001'' =
       Inr (False, pen_cart\<lparr>heap := (heap pen_cart)(0 := \<lparr>product_id = ''PID001'', name = ''Pen'', price = 10,
                                                           quantity_available = 5\<rparr>),
                            cart := []\<rparr>)"
proof -
  let ?s' = "pen_cart\<lparr>heap := (heap pen_cart)(0 := \<lparr>product_id = ''PID001'', name = ''Pen'', price = 10,
                                                      quantity_available = 5\<rparr>),
                       cart := []\<rparr>"
  have absent: "map_of (cart pen_cart) ''PID002'' = None"
    by (simp add: pen_cart_def)
  have present: "map_of (cart pen_cart) ''PID001'' = Some \<lparr>product = 0, quantity = 3\<rparr>
      \<and> map_of (catalog pen_cart) ''PID001'' = Some (product \<lparr>product = 0, quantity = 3\<rparr>)"
    by (simp add: pen_cart_def)
  have a: "remove_from_cart pen_cart ''PID002'' = Inr (False, pen_cart)"
    using remove_from_cart_spec [of pen_cart "''PID002''", THEN conjunct1, rule_format, OF absent] .
  have "remove_from_cart pen_cart ''PID001'' =
      Inr (True, pen_cart\<lparr>heap := (heap pen_cart)(product \<lparr>product = 0, quantity = 3\<rparr> :=
                     (heap pen_cart (product \<lparr>product = 0, quantity = 3\<rparr>))
                       \<lparr>quantity_available := quantity_available (heap pen_cart (product \<lparr>product = 0, quantity = 3\<rparr>))
                          + quantity \<lparr>product = 0, quantity = 3\<rparr>\<rparr>),
                   cart := AList.delete ''PID001'' (cart pen_cart)\<rparr>)"
    using remove_from_cart_spec [of pen_cart "''PID001''", THEN conjunct2, THEN conjunct2, rule_format, OF present] .
  then have b: "remove_from_cart pen_cart ''PID001'' = Inr (True, ?s')"
    by (simp add: pen_cart_def)
  have c: "remove_from_cart ?s' ''PID001'' = Inr (False, ?s')"
    using remove_from_cart_spec [of pen_cart "''PID001''", THEN conjunct2, THEN conjunct1, rule_format, OF b]
    by (elim conjE)
  from a b c show ?thesis by (intro conjI)
qed

text \<open>
  C6: \<^verbatim>\<open>clear_cart\<close> leaves an empty cart and does not touch the store of Products, so
  every stock is what it was, nor the catalog, nor the counter.
\<close>

theorem clear_cart_spec:
  "cart (clear_cart s) = [] \<and> heap (clear_cart s) = heap s \<and> next_ref (clear_cart s) = next_ref s
   \<and> catalog (clear_cart s) = catalog s \<and> next_id (clear_cart s) = next_id s"
  by (simp add: clear_cart_def)

section \<open>The stock of one Product\<close>

text \<open>
  The setter leaves the object alone when the value is negative, and
  \<^verbatim>\<open>decrease_quantity\<close> takes the amount off exactly when \<open>0 < amount \<le> stock\<close> and
  otherwise returns False with the object unchanged.
\<close>

lemma set_quantity_available_negative: "v < 0 \<Longrightarrow> set_quantity_available p v = p"
  by (simp add: set_quantity_available_def)

lemma decrease_quantity_guard:
  "fst (decrease_quantity p a) \<longleftrightarrow> 0 < a \<and> a \<le> quantity_available p"
  "\<not> fst (decrease_quantity p a) \<Longrightarrow> snd (decrease_quantity p a) = p"
  "fst (decrease_quantity p a) \<Longrightarrow>
     snd (decrease_quantity p a) = p\<lparr>quantity_available := quantity_available p - a\<rparr>"
  by (auto simp: decrease_quantity_def split: if_splits)

text \<open>
  From a stock that is not negative, the three mutators keep the stock from going
  negative as long as no \<^verbatim>\<open>increase_quantity\<close> is given a negative amount.
\<close>

lemma product_step_nonneg:
  "0 \<le> quantity_available p \<Longrightarrow> (case x of Increase a \<Rightarrow> 0 \<le> a | _ \<Rightarrow> True) \<Longrightarrow>
   0 \<le> quantity_available (product_step p x)"
  by (cases x) (auto simp: decrease_quantity_def increase_quantity_def set_quantity_available_def)

lemma product_steps_nonneg:
  "0 \<le> quantity_available p \<Longrightarrow> list_all (\<lambda>x. case x of Increase a \<Rightarrow> 0 \<le> a | _ \<Rightarrow> True) xs \<Longrightarrow>
   0 \<le> quantity_available (foldl product_step p xs)"
  by (induction xs arbitrary: p) (simp_all add: product_step_nonneg)

text \<open>
  C7 says that no sequence of \<^verbatim>\<open>decrease_quantity\<close>, \<^verbatim>\<open>increase_quantity\<close> and setter
  calls makes the available quantity negative. The setter and \<^verbatim>\<open>decrease_quantity\<close>
  check their argument; \<^verbatim>\<open>increase_quantity\<close> does not: on a Product with stock 0 the
  call \<^verbatim>\<open>increase_quantity(-1)\<close> leaves the stock at \<open>-1\<close>.
\<close>

theorem increase_quantity_goes_negative:
  "quantity_available (Product_init ''PID001'' ''Pen'' (10::int) 0) = 0
   \<and> quantity_available (foldl product_step (Product_init ''PID001'' ''Pen'' (10::int) 0) [Increase (- 1)]) = - 1"
  by (simp add: Product_init_def increase_quantity_def)

section \<open>Identifiers: the format is injective on the counter's values\<close>

lemma digit_val_digit_char: "d < 10 \<Longrightarrow> digit_val (digit_char d) = d"
  by (simp add: digit_val_def digit_char_def)

lemma digit_val_zero: "digit_val (CHR ''0'') = 0"
  by (simp add: digit_val_def)

lemma read_nat_snoc: "read_nat (ds @ [c]) = 10 * read_nat ds + digit_val c"
  by (simp add: read_nat_def)

lemma read_nat_str_nat: "read_nat (str_nat n) = n"
proof (induction n rule: str_nat.induct)
  case (1 n)
  show ?case
  proof (cases "n < 10")
    case True
    then show ?thesis
      by (subst str_nat.simps) (simp add: read_nat_def digit_val_digit_char)
  next
    case False
    with 1 have "read_nat (str_nat (n div 10)) = n div 10" by simp
    with False show ?thesis
      by (subst str_nat.simps) (simp add: read_nat_snoc digit_val_digit_char)
  qed
qed

lemma foldl_zeros: "foldl (\<lambda>a c. 10 * a + digit_val c) 0 (replicate k (CHR ''0'')) = 0"
  by (induction k) (simp_all add: digit_val_zero)

lemma read_nat_zfill: "read_nat (zfill w ds) = read_nat ds"
  by (simp add: read_nat_def zfill_def foldl_zeros)

lemma read_nat_format_03d: "0 \<le> n \<Longrightarrow> read_nat (format_03d n) = nat n"
  by (simp add: format_03d_def read_nat_zfill read_nat_str_nat)

lemma format_03d_inj: "0 \<le> i \<Longrightarrow> 0 \<le> j \<Longrightarrow> format_03d i = format_03d j \<Longrightarrow> i = j"
  by (metis read_nat_format_03d nat_eq_iff2)

section \<open>Dictionaries as association lists\<close>

lemma sum_list_update:
  fixes f :: "'k \<times> 'v \<Rightarrow> int"
  shows "sum_list (map f (AList.update k v al)) =
           sum_list (map f al) + f (k, v) - (case map_of al k of None \<Rightarrow> 0 | Some v0 \<Rightarrow> f (k, v0))"
  by (induction al) auto

lemma sum_list_delete:
  fixes f :: "'k \<times> 'v \<Rightarrow> int"
  shows "distinct (map fst al) \<Longrightarrow> sum_list (map f (AList.delete k al)) =
           sum_list (map f al) - (case map_of al k of None \<Rightarrow> 0 | Some v0 \<Rightarrow> f (k, v0))"
proof (induction al)
  case Nil
  then show ?case by simp
next
  case (Cons p al)
  show ?case
  proof (cases "fst p = k")
    case True
    with Cons.prems have "k \<notin> fst ` set al" by auto
    then have "AList.delete k al = al" by simp
    with True show ?thesis by (cases p) simp
  next
    case False
    with Cons show ?thesis by (cases p) auto
  qed
qed

lemma sum_list_zeros: "(\<And>x. x \<in> set xs \<Longrightarrow> f x = (0::int)) \<Longrightarrow> sum_list (map f xs) = 0"
  by (induction xs) simp_all

lemma set_update_subset: "set (AList.update k v al) \<subseteq> insert (k, v) (set al)"
  by (induction al) auto

lemma set_delete_subset: "set (AList.delete k al) \<subseteq> set al"
  by (auto simp: AList.delete_eq)

lemma update_fresh: "k \<notin> fst ` set al \<Longrightarrow> AList.update k v al = al @ [(k, v)]"
  by (induction al) auto

section \<open>What every state built by the operations satisfies\<close>

lemma consistent_init: "consistent ShoppingCart_init"
  by (simp add: consistent_def ShoppingCart_init_def)

lemma fresh_pid:
  assumes "consistent s"
  shows "pid_string (next_id s) \<notin> fst ` set (catalog s)"
proof
  assume "pid_string (next_id s) \<in> fst ` set (catalog s)"
  then obtain r where "(pid_string (next_id s), r) \<in> set (catalog s)" by auto
  with assms have "pid_string (next_id s) \<in> set (issued (next_id s))"
    by (auto simp: consistent_def list_all_iff)
  then obtain i where i: "1 \<le> i" "i \<le> next_id s - 1" "format_03d (next_id s) = format_03d i"
    by (auto simp: issued_def pid_string_def)
  from assms have "1 \<le> next_id s" by (simp add: consistent_def)
  with i have "next_id s = i" by (intro format_03d_inj) auto
  with i show False by simp
qed

lemma cart_linked:
  "consistent s \<Longrightarrow> map_of (cart s) pid = Some item \<Longrightarrow> map_of (catalog s) pid = Some (product item)"
  by (auto simp: consistent_def list_all_iff dest!: map_of_SomeD)

lemma catalog_allocated:
  "consistent s \<Longrightarrow> map_of (catalog s) pid = Some r \<Longrightarrow> r < next_ref s"
  by (auto simp: consistent_def list_all_iff dest!: map_of_SomeD)

lemma issued_mono: "pid \<in> set (issued n) \<Longrightarrow> pid \<in> set (issued (n + 1))"
  by (auto simp: issued_def)

lemma issued_next: "1 \<le> n \<Longrightarrow> pid_string n \<in> set (issued (n + 1))"
  by (auto simp: issued_def)

lemma add_product_eq:
  "consistent s \<Longrightarrow> add_product s nm pr qty =
     (pid_string (next_id s),
      s\<lparr>heap := (heap s)(next_ref s := Product_init (pid_string (next_id s)) nm pr qty),
        next_ref := Suc (next_ref s),
        catalog := catalog s @ [(pid_string (next_id s), next_ref s)],
        next_id := next_id s + 1\<rparr>)"
  by (simp add: add_product_def generate_product_id_def Let_def update_fresh [OF fresh_pid])

lemma consistent_add_product:
  assumes "consistent s"
  shows "consistent (snd (add_product s nm pr qty))"
proof -
  have keys: "\<And>k item. (k, item) \<in> set (cart s) \<Longrightarrow> map_of (catalog s) k = Some (product item)"
    using assms by (auto simp: consistent_def list_all_iff)
  have refs: "\<And>k r. (k, r) \<in> set (catalog s) \<Longrightarrow> r < next_ref s \<and> k \<in> set (issued (next_id s))"
    using assms by (auto simp: consistent_def list_all_iff)
  have d: "distinct (map fst (catalog s))" "distinct (map fst (cart s))" "1 \<le> next_id s"
    using assms by (auto simp: consistent_def)
  show ?thesis
    unfolding add_product_eq [OF assms] consistent_def
    using d fresh_pid [OF assms]
    by (auto simp: list_all_iff issued_next map_add_def dest: refs keys intro: issued_mono less_SucI
             split: option.splits)
qed

lemma consistent_add_to_cart:
  assumes "consistent s"
  shows "consistent (snd (add_to_cart s pid qty))"
proof (cases "map_of (catalog s) pid")
  case None
  with assms show ?thesis by (simp add: add_to_cart_def)
next
  case (Some r)
  have link: "\<And>k item. (k, item) \<in> set (cart s) \<Longrightarrow> map_of (catalog s) k = Some (product item)"
    using assms by (auto simp: consistent_def list_all_iff)
  have upd: "\<And>v k item. (k, item) \<in> set (AList.update pid v (cart s)) \<Longrightarrow>
      (k, item) = (pid, v) \<or> (k, item) \<in> set (cart s)"
    using set_update_subset by fastforce
  show ?thesis
  proof (cases "0 < qty \<and> qty \<le> quantity_available (heap s r)")
    case False
    with Some assms show ?thesis
      by (auto simp: add_to_cart_def decrease_quantity_def)
  next
    case True
    show ?thesis
    proof (cases "map_of (cart s) pid")
      case None
      with True Some assms show ?thesis
        by (auto simp: add_to_cart_def decrease_quantity_def consistent_def list_all_iff
            distinct_update dest!: upd)
    next
      case (Some item)
      then have "map_of (catalog s) pid = Some (product item)"
        using assms by (rule cart_linked [rotated])
      with True Some \<open>map_of (catalog s) pid = Some r\<close> assms show ?thesis
        by (auto simp: add_to_cart_def decrease_quantity_def consistent_def list_all_iff
            distinct_update dest!: upd)
    qed
  qed
qed

lemma consistent_update_cart_quantity:
  assumes "consistent s"
  shows "consistent (snd (update_cart_quantity s pid new_qty))"
proof (cases "map_of (cart s) pid")
  case None
  with assms show ?thesis by (simp add: update_cart_quantity_def)
next
  case (Some item)
  have upd: "\<And>v k item. (k, item) \<in> set (AList.update pid v (cart s)) \<Longrightarrow>
      (k, item) = (pid, v) \<or> (k, item) \<in> set (cart s)"
    using set_update_subset by fastforce
  from Some have "map_of (catalog s) pid = Some (product item)"
    using assms by (rule cart_linked [rotated])
  with Some assms show ?thesis
    by (auto simp: update_cart_quantity_def Let_def consistent_def list_all_iff
        distinct_update dest!: upd)
qed

lemma remove_from_cart_ok:
  assumes "consistent s"
  shows "\<exists>ok s'. remove_from_cart s pid = Inr (ok, s') \<and> consistent s'"
proof (cases "map_of (cart s) pid")
  case None
  with assms show ?thesis by (auto simp: remove_from_cart_def)
next
  case (Some item)
  then have cat: "map_of (catalog s) pid = Some (product item)"
    using assms by (rule cart_linked [rotated])
  let ?s' = "s\<lparr>heap := (heap s)(product item := increase_quantity (heap s (product item)) (quantity item)),
               cart := AList.delete pid (cart s)\<rparr>"
  have link: "\<And>k it. (k, it) \<in> set (cart s) \<Longrightarrow> map_of (catalog s) k = Some (product it)"
    using assms by (auto simp: consistent_def list_all_iff)
  have "list_all (\<lambda>(k, it). map_of (catalog s) k = Some (product it)) (AList.delete pid (cart s))"
    using set_delete_subset [of pid "cart s"] link by (auto simp: list_all_iff)
  with assms have "consistent ?s'"
    by (simp add: consistent_def distinct_delete)
  moreover from Some cat have "remove_from_cart s pid = Inr (True, ?s')"
    by (simp add: remove_from_cart_def)
  ultimately show ?thesis by blast
qed

lemma consistent_clear_cart: "consistent s \<Longrightarrow> consistent (clear_cart s)"
  by (simp add: consistent_def clear_cart_def)

text \<open>A sequence of calls on a fresh ShoppingCart never raises, and ends in such a state.\<close>

lemma exec_ok:
  assumes "consistent s"
  shows "\<exists>s'. exec s x = Inr s' \<and> consistent s'"
proof (cases x)
  case (RemoveFromCart pid)
  from remove_from_cart_ok [OF assms, of pid] obtain ok s'
    where "remove_from_cart s pid = Inr (ok, s')" "consistent s'" by blast
  with RemoveFromCart show ?thesis by simp
qed (simp_all add: assms consistent_add_product consistent_add_to_cart
      consistent_update_cart_quantity consistent_clear_cart)

lemma run_ok: "consistent s \<Longrightarrow> \<exists>s'. run s xs = Inr s' \<and> consistent s'"
proof (induction xs arbitrary: s)
  case Nil
  then show ?case by simp
next
  case (Cons x xs)
  from exec_ok [OF Cons.prems, of x] obtain s1 where s1: "exec s x = Inr s1" "consistent s1"
    by blast
  from Cons.IH [OF s1(2)] s1(1) show ?case by simp
qed

text \<open>
  C10: whatever calls of \<^verbatim>\<open>add_product\<close>, \<^verbatim>\<open>add_to_cart\<close>, \<^verbatim>\<open>update_cart_quantity\<close>,
  \<^verbatim>\<open>remove_from_cart\<close> and \<^verbatim>\<open>clear_cart\<close> are made on a fresh ShoppingCart, they all
  return, and in the state they lead to every key of the cart is a key of the catalog, the
  Product that the cart line refers to is the very object the catalog holds under that
  key, and \<^verbatim>\<open>remove_from_cart\<close> never raises the \<^verbatim>\<open>KeyError\<close> of its catalog lookup: for
  a key that is in the cart it returns True.
\<close>

theorem cart_refers_to_catalog:
  "\<exists>s. run ShoppingCart_init ops = Inr s \<and>
     (\<forall>pid item. map_of (cart s) pid = Some item \<longrightarrow>
        map_of (catalog s) pid = Some (product item) \<and>
        (\<exists>s'. remove_from_cart s pid = Inr (True, s'))) \<and>
     (\<forall>pid. remove_from_cart s pid \<noteq> Inl KeyError)"
proof -
  from run_ok [OF consistent_init, of ops] obtain s
    where s: "run ShoppingCart_init ops = Inr s" "consistent s" by blast
  have "map_of (catalog s) pid = Some (product item) \<and> (\<exists>s'. remove_from_cart s pid = Inr (True, s'))"
    if "map_of (cart s) pid = Some item" for pid item
  proof -
    from s(2) that have "map_of (catalog s) pid = Some (product item)" by (rule cart_linked)
    with that show ?thesis by (simp add: remove_from_cart_def)
  qed
  moreover have "remove_from_cart s pid \<noteq> Inl KeyError" for pid
    using remove_from_cart_ok [OF s(2), of pid] by auto
  ultimately show ?thesis using s(1) by blast
qed

theorem cart_refers_to_catalog_witness:
  "map_of (cart pen_cart) ''PID001'' = Some \<lparr>product = 0, quantity = 3\<rparr>
   \<and> map_of (catalog pen_cart) ''PID001'' = Some 0
   \<and> (\<exists>s'. remove_from_cart pen_cart ''PID001'' = Inr (True, s'))
   \<and> remove_from_cart pen_cart ''PID001'' \<noteq> Inl KeyError"
proof -
  have line: "map_of (cart pen_cart) ''PID001'' = Some \<lparr>product = 0, quantity = 3\<rparr>"
    by (simp add: pen_cart_def)
  from cart_refers_to_catalog [of "[AddProduct ''Pen'' (10::int) 5, AddToCart ''PID001'' 3]"]
  have all: "(\<forall>pid item. map_of (cart pen_cart) pid = Some item \<longrightarrow>
        map_of (catalog pen_cart) pid = Some (product item) \<and>
        (\<exists>s'. remove_from_cart pen_cart pid = Inr (True, s'))) \<and>
     (\<forall>pid. remove_from_cart pen_cart pid \<noteq> Inl KeyError)"
    unfolding pen_cart_run by simp
  from all [THEN conjunct1, rule_format, OF line] all [THEN conjunct2, rule_format, of "''PID001''"] line
  show ?thesis by simp
qed

subsection \<open>Adding a product\<close>

lemma next_id_exec:
  "exec s x = Inr s' \<Longrightarrow> next_id s' = next_id s + (if is_add_product x then 1 else 0)"
proof (cases x)
  case (AddProduct nm pr qty)
  then show "exec s x = Inr s' \<Longrightarrow> ?thesis"
    by (auto simp: add_product_def generate_product_id_def Let_def)
next
  case (AddToCart pid qty)
  then show "exec s x = Inr s' \<Longrightarrow> ?thesis"
    by (auto simp: add_to_cart_def decrease_quantity_def Let_def split: option.splits)
next
  case (UpdateCartQuantity pid q)
  then show "exec s x = Inr s' \<Longrightarrow> ?thesis"
    by (auto simp: update_cart_quantity_def Let_def split: option.splits)
next
  case (RemoveFromCart pid)
  then show "exec s x = Inr s' \<Longrightarrow> ?thesis"
    by (auto simp: remove_from_cart_def split: option.splits sum.splits)
next
  case ClearCart
  then show "exec s x = Inr s' \<Longrightarrow> ?thesis"
    by (auto simp: clear_cart_def)
qed

lemma next_id_run:
  "run s xs = Inr s' \<Longrightarrow> next_id s' = next_id s + int (length (filter is_add_product xs))"
proof (induction xs arbitrary: s)
  case Nil
  then show ?case by simp
next
  case (Cons x xs)
  then obtain s1 where s1: "exec s x = Inr s1" "run s1 xs = Inr s'"
    by (auto split: sum.splits)
  from next_id_exec [OF s1(1)] Cons.IH [OF s1(2)] show ?case by simp
qed

lemma catalog_add_product:
  assumes "consistent s" and "map_of (catalog s) k = Some r"
  shows "map_of (catalog (snd (add_product s nm pr qty))) k = Some r"
  using assms by (simp add: add_product_eq)

lemma reserved_unreferenced:
  assumes "\<And>k item. (k, item) \<in> set (cart s) \<Longrightarrow> product item \<noteq> r"
  shows "reserved s r = 0"
  unfolding reserved_def using assms by (intro sum_list_zeros) auto

lemma created:
  assumes "consistent s"
  shows "map_of (catalog (snd (add_product s nm pr qty))) (fst (add_product s nm pr qty)) = Some (next_ref s)
     \<and> quantity_available (heap (snd (add_product s nm pr qty)) (next_ref s)) = qty
     \<and> reserved (snd (add_product s nm pr qty)) (next_ref s) = 0"
proof -
  have "\<And>k item. (k, item) \<in> set (cart s) \<Longrightarrow> product item \<noteq> next_ref s"
  proof -
    fix k item assume "(k, item) \<in> set (cart s)"
    with assms have "map_of (catalog s) k = Some (product item)"
      by (auto simp: consistent_def list_all_iff)
    with assms have "product item < next_ref s" by (rule catalog_allocated)
    then show "product item \<noteq> next_ref s" by simp
  qed
  then have "reserved s (next_ref s) = 0" by (rule reserved_unreferenced)
  then have "reserved (snd (add_product s nm pr qty)) (next_ref s) = 0"
    using assms by (simp add: add_product_eq reserved_def)
  moreover from fresh_pid [OF assms] have "map_of (catalog s) (pid_string (next_id s)) = None"
    by (simp add: map_of_eq_None_iff)
  ultimately show ?thesis
    using assms by (simp add: add_product_eq Product_init_def map_add_def)
qed

text \<open>
  C9: in the state after any sequence of calls on a fresh ShoppingCart, the counter is 1
  plus the number of \<^verbatim>\<open>add_product\<close> calls made so far, and \<^verbatim>\<open>add_product\<close> returns
  \<open>PID\<close> followed by the decimal digits of the counter, padded with zeros to three places.
  That identifier is not yet a key of the catalog. After the call the counter is one more,
  the catalog holds under the identifier a new Product object made of the identifier and
  the three arguments, every earlier catalog entry is still there and refers to the same,
  unchanged object, the cart is the same and the Products its lines refer to are
  unchanged. The first two calls on a fresh ShoppingCart return \<open>PID001\<close> and \<open>PID002\<close>.
\<close>

theorem add_product_spec:
  "(\<exists>s. run ShoppingCart_init ops = Inr s \<and>
      next_id s = 1 + int (length (filter is_add_product ops)) \<and>
      fst (add_product s nm pr qty) = ''PID'' @ zfill 3 (str_nat (nat (next_id s))) \<and>
      map_of (catalog s) (fst (add_product s nm pr qty)) = None \<and>
      next_id (snd (add_product s nm pr qty)) = next_id s + 1 \<and>
      map_of (catalog (snd (add_product s nm pr qty))) (fst (add_product s nm pr qty)) = Some (next_ref s) \<and>
      heap (snd (add_product s nm pr qty)) (next_ref s) =
        \<lparr>product_id = fst (add_product s nm pr qty), name = nm, price = pr, quantity_available = qty\<rparr> \<and>
      (\<forall>k r. map_of (catalog s) k = Some r \<longrightarrow>
         map_of (catalog (snd (add_product s nm pr qty))) k = Some r \<and>
         heap (snd (add_product s nm pr qty)) r = heap s r) \<and>
      cart (snd (add_product s nm pr qty)) = cart s \<and>
      (\<forall>k item. map_of (cart s) k = Some item \<longrightarrow>
         heap (snd (add_product s nm pr qty)) (product item) = heap s (product item)))
   \<and> fst (add_product ShoppingCart_init nm1 pr1 qty1) = ''PID001''
   \<and> fst (add_product (snd (add_product ShoppingCart_init nm1 pr1 qty1)) nm2 pr2 qty2) = ''PID002''"
proof -
  from run_ok [OF consistent_init, of ops] obtain s
    where s: "run ShoppingCart_init ops = Inr s" "consistent s" by blast
  let ?pid = "fst (add_product s nm pr qty)" and ?s' = "snd (add_product s nm pr qty)"
  from s(2) have pos: "1 \<le> next_id s" by (simp add: consistent_def)
  have n: "next_id s = 1 + int (length (filter is_add_product ops))"
    using next_id_run [OF s(1)] by (simp add: ShoppingCart_init_def)
  have pid: "?pid = pid_string (next_id s)"
    by (simp add: add_product_def generate_product_id_def Let_def)
  have form: "?pid = ''PID'' @ zfill 3 (str_nat (nat (next_id s)))"
    using pos by (simp add: pid pid_string_def format_03d_def)
  have fresh: "map_of (catalog s) ?pid = None"
    using fresh_pid [OF s(2)] by (simp add: pid map_of_eq_None_iff)
  have cnt: "next_id ?s' = next_id s + 1"
    by (simp add: add_product_eq [OF s(2)])
  have new: "map_of (catalog ?s') ?pid = Some (next_ref s)"
    using created [OF s(2), of nm pr qty] by simp
  have obj: "heap ?s' (next_ref s) =
      \<lparr>product_id = ?pid, name = nm, price = pr, quantity_available = qty\<rparr>"
    by (simp add: add_product_eq [OF s(2)] Product_init_def)
  have old: "map_of (catalog ?s') k = Some r \<and> heap ?s' r = heap s r"
    if "map_of (catalog s) k = Some r" for k r
  proof -
    from s(2) that have "r < next_ref s" by (rule catalog_allocated)
    then have "heap ?s' r = heap s r" by (simp add: add_product_eq [OF s(2)])
    with catalog_add_product [OF s(2) that] show ?thesis by simp
  qed
  have crt: "cart ?s' = cart s"
    by (simp add: add_product_eq [OF s(2)])
  have lines: "heap ?s' (product item) = heap s (product item)"
    if "map_of (cart s) k = Some item" for k item
    using old [OF cart_linked [OF s(2) that]] by simp
  have first: "fst (add_product ShoppingCart_init nm1 pr1 qty1) = ''PID001''"
    by (simp add: add_product_def generate_product_id_def ShoppingCart_init_def pid_string_1 Let_def)
  have second: "fst (add_product (snd (add_product ShoppingCart_init nm1 pr1 qty1)) nm2 pr2 qty2) = ''PID002''"
    by (simp add: add_product_def generate_product_id_def ShoppingCart_init_def pid_string_2 Let_def)
  from s(1) n form fresh cnt new obj old crt lines first second show ?thesis
    by blast
qed

theorem add_product_spec_witness:
  "fst (add_product pen_cart ''Book'' 50 2) = ''PID002''
   \<and> map_of (catalog pen_cart) ''PID002'' = None
   \<and> map_of (catalog pen_cart) ''PID001'' = Some 0
   \<and> map_of (catalog (snd (add_product pen_cart ''Book'' 50 2))) ''PID001'' = Some 0
   \<and> heap (snd (add_product pen_cart ''Book'' 50 2)) 0 = heap pen_cart 0
   \<and> map_of (catalog (snd (add_product pen_cart ''Book'' 50 2))) ''PID002'' = Some 1
   \<and> heap (snd (add_product pen_cart ''Book'' 50 2)) 1 =
        \<lparr>product_id = ''PID002'', name = ''Book'', price = 50, quantity_available = 2\<rparr>
   \<and> cart (snd (add_product pen_cart ''Book'' 50 2)) = cart pen_cart"
proof -
  let ?pid = "fst (add_product pen_cart ''Book'' 50 2)" and ?s' = "snd (add_product pen_cart ''Book'' 50 2)"
  have ev: "''PID'' @ zfill 3 (str_nat (nat 2)) = ''PID002''" by code_simp
  have ctr: "next_id pen_cart = 2" "next_ref pen_cart = 1" by (simp_all add: pen_cart_def)
  have pen: "map_of (catalog pen_cart) ''PID001'' = Some 0" by (simp add: pen_cart_def)
  from add_product_spec [of "[AddProduct ''Pen'' (10::int) 5, AddToCart ''PID001'' 3]" "''Book''" 50 2,
      THEN conjunct1]
  obtain s :: "int ShoppingCart" where s: "run ShoppingCart_init [AddProduct ''Pen'' 10 5, AddToCart ''PID001'' 3] = Inr s"
    and facts: "fst (add_product s ''Book'' 50 2) = ''PID'' @ zfill 3 (str_nat (nat (next_id s)))"
      "map_of (catalog s) (fst (add_product s ''Book'' 50 2)) = None"
      "map_of (catalog (snd (add_product s ''Book'' 50 2))) (fst (add_product s ''Book'' 50 2))
         = Some (next_ref s)"
      "heap (snd (add_product s ''Book'' 50 2)) (next_ref s) =
         \<lparr>product_id = fst (add_product s ''Book'' 50 2), name = ''Book'', price = 50,
          quantity_available = 2\<rparr>"
      "\<forall>k r. map_of (catalog s) k = Some r \<longrightarrow>
         map_of (catalog (snd (add_product s ''Book'' 50 2))) k = Some r \<and>
         heap (snd (add_product s ''Book'' 50 2)) r = heap s r"
      "cart (snd (add_product s ''Book'' 50 2)) = cart s"
    by blast
  from s have "s = pen_cart" unfolding pen_cart_run by simp
  note spec = facts [unfolded this]
  from spec(1) have pid: "?pid = ''PID002''" unfolding ctr ev .
  from spec(5) [rule_format, OF pen] spec(2,3,4,6) pen show ?thesis
    unfolding pid ctr by simp
qed

subsection \<open>Quantities of the cart lines\<close>

text \<open>
  C8 says that no cart line ever has a quantity of zero or less. \<^verbatim>\<open>add_to_cart\<close> only
  takes positive quantities, but \<^verbatim>\<open>update_cart_quantity\<close> does not look at the sign of the
  new quantity: after adding a Pen with stock 5 and putting 3 in the cart,
  \<^verbatim>\<open>update_cart_quantity("PID001", 0)\<close> leaves a line of quantity 0, and with \<open>-5\<close> a line
  of quantity \<open>-5\<close> and a stock of 10.
\<close>

theorem update_cart_quantity_leaves_zero_line:
  "run ShoppingCart_init
     [AddProduct ''Pen'' 10 5, AddToCart ''PID001'' 3, UpdateCartQuantity ''PID001'' 0] =
   Inr (pen_cart\<lparr>heap := (heap pen_cart)(0 := \<lparr>product_id = ''PID001'', name = ''Pen'', price = 10,
                                                 quantity_available = 5\<rparr>),
                 cart := [(''PID001'', \<lparr>product = 0, quantity = 0\<rparr>)]\<rparr>)
   \<and> run ShoppingCart_init
     [AddProduct ''Pen'' 10 5, AddToCart ''PID001'' 3, UpdateCartQuantity ''PID001'' (- 5)] =
   Inr (pen_cart\<lparr>heap := (heap pen_cart)(0 := \<lparr>product_id = ''PID001'', name = ''Pen'', price = 10,
                                                 quantity_available = 10\<rparr>),
                 cart := [(''PID001'', \<lparr>product = 0, quantity = - 5\<rparr>)]\<rparr>)"
  by (simp add: add_product_def generate_product_id_def ShoppingCart_init_def pid_string_1 Let_def
      add_to_cart_def update_cart_quantity_def decrease_quantity_def increase_quantity_def
      Product_init_def pen_cart_def)

section \<open>Conservation of stock\<close>

lemma reserved_update:
  "reserved (s\<lparr>heap := h, cart := AList.update pid v (cart s)\<rparr>) r =
     reserved s r + (if product v = r then quantity v else 0)
       - (case map_of (cart s) pid of None \<Rightarrow> 0
          | Some v0 \<Rightarrow> if product v0 = r then quantity v0 else 0)"
  by (simp add: reserved_def sum_list_update split: option.splits)

lemma reserved_delete:
  "distinct (map fst (cart s)) \<Longrightarrow>
   reserved (s\<lparr>heap := h, cart := AList.delete pid (cart s)\<rparr>) r =
     reserved s r - (case map_of (cart s) pid of None \<Rightarrow> 0
          | Some v0 \<Rightarrow> if product v0 = r then quantity v0 else 0)"
  by (simp add: reserved_def sum_list_delete split: option.splits)

lemma total_add_to_cart:
  assumes "consistent s"
  shows "quantity_available (heap (snd (add_to_cart s pid qty)) r) + reserved (snd (add_to_cart s pid qty)) r
         = quantity_available (heap s r) + reserved s r"
proof (cases "map_of (catalog s) pid")
  case None
  then show ?thesis by (simp add: add_to_cart_def)
next
  case (Some rc)
  show ?thesis
  proof (cases "0 < qty \<and> qty \<le> quantity_available (heap s rc)")
    case False
    with Some show ?thesis by (auto simp: add_to_cart_def decrease_quantity_def)
  next
    case True
    show ?thesis
    proof (cases "map_of (cart s) pid")
      case None
      with True Some show ?thesis
        by (simp add: add_to_cart_def decrease_quantity_def reserved_update)
    next
      case (Some item)
      then have "map_of (catalog s) pid = Some (product item)"
        using assms by (rule cart_linked [rotated])
      with \<open>map_of (catalog s) pid = Some rc\<close> have "product item = rc" by simp
      with True Some \<open>map_of (catalog s) pid = Some rc\<close> show ?thesis
        by (simp add: add_to_cart_def decrease_quantity_def reserved_update)
    qed
  qed
qed

lemma total_update_cart_quantity:
  "quantity_available (heap (snd (update_cart_quantity s pid new_qty)) r)
     + reserved (snd (update_cart_quantity s pid new_qty)) r
   = quantity_available (heap s r) + reserved s r"
  by (cases "map_of (cart s) pid")
     (simp_all add: update_cart_quantity_def Let_def decrease_quantity_def increase_quantity_def
        reserved_update)

lemma total_remove_from_cart:
  assumes "consistent s" and "remove_from_cart s pid = Inr (ok, s')"
  shows "quantity_available (heap s' r) + reserved s' r = quantity_available (heap s r) + reserved s r"
proof (cases "map_of (cart s) pid")
  case None
  with assms show ?thesis by (simp add: remove_from_cart_def)
next
  case (Some item)
  then have cat: "map_of (catalog s) pid = Some (product item)"
    using assms(1) by (rule cart_linked [rotated])
  from assms(1) have d: "distinct (map fst (cart s))" by (simp add: consistent_def)
  from Some cat assms(2) have
    "s' = s\<lparr>heap := (heap s)(product item := increase_quantity (heap s (product item)) (quantity item)),
           cart := AList.delete pid (cart s)\<rparr>"
    by (simp add: remove_from_cart_def)
  with Some d show ?thesis
    by (simp add: reserved_delete increase_quantity_def)
qed

lemma total_add_product:
  assumes "consistent s" and "r < next_ref s"
  shows "quantity_available (heap (snd (add_product s nm pr qty)) r) + reserved (snd (add_product s nm pr qty)) r
         = quantity_available (heap s r) + reserved s r"
  using assms by (simp add: add_product_eq reserved_def)

lemma catalog_add_to_cart: "catalog (snd (add_to_cart s pid qty)) = catalog s"
  by (simp add: add_to_cart_def decrease_quantity_def Let_def split: option.splits)

lemma catalog_update_cart_quantity: "catalog (snd (update_cart_quantity s pid new_qty)) = catalog s"
  by (simp add: update_cart_quantity_def Let_def split: option.splits)

lemma catalog_remove_from_cart: "remove_from_cart s pid = Inr (ok, s') \<Longrightarrow> catalog s' = catalog s"
  by (auto simp: remove_from_cart_def split: option.splits)

lemma catalog_exec:
  assumes "consistent s" and "map_of (catalog s) k = Some r" and "exec s x = Inr s'"
  shows "map_of (catalog s') k = Some r"
proof (cases x)
  case (AddProduct nm pr qty)
  with assms show ?thesis by (auto simp: catalog_add_product)
next
  case (AddToCart pid qty)
  with assms show ?thesis by (auto simp: catalog_add_to_cart)
next
  case (UpdateCartQuantity pid q)
  with assms show ?thesis by (auto simp: catalog_update_cart_quantity)
next
  case (RemoveFromCart pid)
  with assms(3) obtain ok where "remove_from_cart s pid = Inr (ok, s')"
    by (auto split: sum.splits)
  with assms(2) show ?thesis by (simp add: catalog_remove_from_cart)
next
  case ClearCart
  with assms show ?thesis by (auto simp: clear_cart_def)
qed

lemma total_exec:
  assumes "consistent s" and "keeps_reservations x" and "r < next_ref s" and "exec s x = Inr s'"
  shows "quantity_available (heap s' r) + reserved s' r = quantity_available (heap s r) + reserved s r"
proof (cases x)
  case (AddProduct nm pr qty)
  with assms show ?thesis by (auto simp: total_add_product)
next
  case (AddToCart pid qty)
  with assms show ?thesis by (auto simp: total_add_to_cart)
next
  case (UpdateCartQuantity pid q)
  with assms show ?thesis by (auto simp: total_update_cart_quantity)
next
  case (RemoveFromCart pid)
  with assms(4) obtain ok where "remove_from_cart s pid = Inr (ok, s')"
    by (auto split: sum.splits)
  with assms(1) show ?thesis by (rule total_remove_from_cart)
next
  case ClearCart
  with assms show ?thesis by simp
qed

lemma total_run:
  assumes "consistent s" and "list_all keeps_reservations xs" and "map_of (catalog s) k = Some r"
  shows "\<exists>s'. run s xs = Inr s' \<and> map_of (catalog s') k = Some r \<and>
           quantity_available (heap s' r) + reserved s' r = quantity_available (heap s r) + reserved s r"
  using assms
proof (induction xs arbitrary: s)
  case Nil
  then show ?case by simp
next
  case (Cons x xs)
  from exec_ok [OF Cons.prems(1), of x] obtain s1 where s1: "exec s x = Inr s1" "consistent s1"
    by blast
  from Cons.prems have r: "r < next_ref s" by (auto intro: catalog_allocated)
  from Cons.prems s1 have k: "map_of (catalog s1) k = Some r" by (auto intro: catalog_exec)
  from Cons.prems r s1 have t: "quantity_available (heap s1 r) + reserved s1 r
      = quantity_available (heap s r) + reserved s r"
    by (auto intro: total_exec)
  from Cons.prems have "list_all keeps_reservations xs" by simp
  from Cons.IH [OF s1(2) this k] t s1(1) show ?case by auto
qed

text \<open>
  C1: take a ShoppingCart after any sequence of calls, add a Product with stock \<open>qty\<close>, and
  then make any sequence of \<^verbatim>\<open>add_to_cart\<close>, \<^verbatim>\<open>update_cart_quantity\<close> and
  \<^verbatim>\<open>remove_from_cart\<close> calls, for this or any other identifier; calls of \<^verbatim>\<open>add_product\<close>
  for further Products may come in between, only \<^verbatim>\<open>clear_cart\<close> may not. All the calls
  return, and at the end (so at every point on the way) the Product is still in the
  catalog and its available stock plus the quantities of the cart lines that refer to it
  is \<open>qty\<close>, the stock it was created with.
\<close>

theorem stock_conserved:
  assumes "run ShoppingCart_init pre = Inr s" and "list_all keeps_reservations ops"
  shows "\<exists>s'. run (snd (add_product s nm pr qty)) ops = Inr s' \<and>
           map_of (catalog s') (fst (add_product s nm pr qty)) = Some (next_ref s) \<and>
           quantity_available (heap s' (next_ref s)) + reserved s' (next_ref s) = qty"
proof -
  from run_ok [OF consistent_init, of pre] assms(1) have c: "consistent s" by simp
  then have c0: "consistent (snd (add_product s nm pr qty))" by (rule consistent_add_product)
  from created [OF c, of nm pr qty] total_run [OF c0 assms(2), of "fst (add_product s nm pr qty)" "next_ref s"]
  show ?thesis by auto
qed

theorem stock_conserved_witness:
  "run (ShoppingCart_init :: int ShoppingCart) [] = Inr ShoppingCart_init
   \<and> list_all keeps_reservations
        [AddToCart ''PID001'' 3, UpdateCartQuantity ''PID001'' 1, AddToCart ''PID001'' 4,
         RemoveFromCart ''PID001'', AddToCart ''PID001'' 2]
   \<and> (case run (snd (add_product (ShoppingCart_init :: int ShoppingCart) ''Pen'' 10 5))
              [AddToCart ''PID001'' 3, UpdateCartQuantity ''PID001'' 1, AddToCart ''PID001'' 4,
               RemoveFromCart ''PID001'', AddToCart ''PID001'' 2] of
         Inl e \<Rightarrow> False
       | Inr s' \<Rightarrow> map_of (catalog s') ''PID001'' = Some 0
          \<and> quantity_available (heap s' 0) + reserved s' 0 = 5)"
proof -
  have pre: "run (ShoppingCart_init :: int ShoppingCart) [] = Inr ShoppingCart_init" by simp
  have ops: "list_all keeps_reservations
        [AddToCart ''PID001'' 3, UpdateCartQuantity ''PID001'' 1, AddToCart ''PID001'' 4,
         RemoveFromCart ''PID001'', AddToCart ''PID001'' 2]" by simp
  have pid: "fst (add_product (ShoppingCart_init :: int ShoppingCart) ''Pen'' 10 5) = ''PID001''"
    by (simp add: add_product_def generate_product_id_def ShoppingCart_init_def pid_string_1 Let_def)
  have ref: "next_ref (ShoppingCart_init :: int ShoppingCart) = 0" by (simp add: ShoppingCart_init_def)
  from stock_conserved [OF pre ops, of "''Pen''" 10 5] obtain s' where
    "run (snd (add_product (ShoppingCart_init :: int ShoppingCart) ''Pen'' 10 5))
        [AddToCart ''PID001'' 3, UpdateCartQuantity ''PID001'' 1, AddToCart ''PID001'' 4,
         RemoveFromCart ''PID001'', AddToCart ''PID001'' 2] = Inr s'"
    "map_of (catalog s') ''PID001'' = Some 0"
    "quantity_available (heap s' 0) + reserved s' 0 = 5"
    unfolding pid ref by blast
  with pre ops show ?thesis by simp
qed

end
